theory Spec2Isabelle
  imports Main "HOL-Library.Sublist"
begin

section \<open>Python values and their textual rendering\<close>

text \<open>
  The translators of \<^verbatim>\<open>papermill/translators.py\<close> consume the values of a parsed
  JSON/YAML document. A Python \<^verbatim>\<open>bool\<close> is an instance of \<^verbatim>\<open>int\<close>, so the two
  share the type \<open>pyinteger\<close>: \<^verbatim>\<open>isinstance(val, integer_types)\<close> holds of both.
  A float is carried by the text Python prints for it; a value of any other class is
  carried by its \<^verbatim>\<open>str()\<close> and \<^verbatim>\<open>repr()\<close> texts. A \<open>char\<close> stands for a code
  point below 256. Dictionary keys are strings, as in a JSON document.
\<close>

datatype pyinteger = IntObj int | BoolObj bool

datatype pyval =
    PNone
  | PStr string
  | PInteger pyinteger
  | PFloat string
  | PDict "(string \<times> pyval) list"
  | PList "pyval list"
  | POther string string

abbreviation NL :: char where "NL \<equiv> CHR 0x0A"
abbreviation DQ :: char where "DQ \<equiv> CHR 0x22"
abbreviation SQ :: char where "SQ \<equiv> CHR 0x27"
abbreviation BS :: char where "BS \<equiv> CHR 0x5C"

fun isinstance_bool :: "pyval \<Rightarrow> bool" where
  "isinstance_bool (PInteger (BoolObj b)) = True"
| "isinstance_bool v = False"

fun isinstance_integer_types :: "pyval \<Rightarrow> bool" where
  "isinstance_integer_types (PInteger i) = True"
| "isinstance_integer_types v = False"

text \<open>The numeric value of an \<^verbatim>\<open>int\<close> instance: \<^verbatim>\<open>True == 1\<close> and \<^verbatim>\<open>False == 0\<close>.\<close>

fun int_value :: "pyinteger \<Rightarrow> int" where
  "int_value (IntObj i) = i"
| "int_value (BoolObj b) = (if b then 1 else 0)"

subsection \<open>Built-in string operations\<close>

definition hexdigit :: "nat \<Rightarrow> char" where
  "hexdigit n = ''0123456789abcdef'' ! (n mod 16)"

fun str_nat :: "nat \<Rightarrow> string" where
  "str_nat n = (if n < 10 then [hexdigit n] else str_nat (n div 10) @ [hexdigit (n mod 10)])"

declare str_nat.simps [simp del]

definition str_int :: "int \<Rightarrow> string" where
  "str_int i = (if i < 0 then CHR ''-'' # str_nat (nat (- i)) else str_nat (nat i))"

text \<open>\<^verbatim>\<open>sep.join(xs)\<close>\<close>

fun join :: "string \<Rightarrow> string list \<Rightarrow> string" where
  "join sep [] = []"
| "join sep [x] = x"
| "join sep (x # y # ys) = x @ sep @ join sep (y # ys)"

text \<open>\<^verbatim>\<open>s.replace(c, r)\<close> for a one-character pattern \<open>c\<close>.\<close>

definition replace_char :: "char \<Rightarrow> string \<Rightarrow> string \<Rightarrow> string" where
  "replace_char c r s = concat (map (\<lambda>x. if x = c then r else [x]) s)"

text \<open>
  The characters \<^verbatim>\<open>str.strip()\<close> removes: the white space of Unicode below code
  point 256.
\<close>

definition is_space :: "char \<Rightarrow> bool" where
  "is_space c = (let n = (of_char c :: nat) in
     (9 \<le> n \<and> n \<le> 13) \<or> (28 \<le> n \<and> n \<le> 32) \<or> n = 133 \<or> n = 160)"

definition strip :: "string \<Rightarrow> string" where
  "strip s = rev (dropWhile is_space (rev (dropWhile is_space s)))"

text \<open>
  \<^verbatim>\<open>s.encode('unicode_escape').decode('utf-8')\<close>: printable ASCII is copied, the
  backslash is doubled, tab, line feed and carriage return get their letter, and every
  other code point below 256 becomes \<^verbatim>\<open>\xhh\<close>.
\<close>

definition escape_char :: "char \<Rightarrow> string" where
  "escape_char c = (let n = (of_char c :: nat) in
     if 32 \<le> n \<and> n < 127 then (if c = BS then [BS, BS] else [c])
     else if n = 9 then [BS, CHR ''t'']
     else if n = 10 then [BS, CHR ''n'']
     else if n = 13 then [BS, CHR ''r'']
     else [BS, CHR ''x'', hexdigit (n div 16), hexdigit (n mod 16)])"

definition unicode_escape :: "string \<Rightarrow> string" where
  "unicode_escape s = concat (map escape_char s)"

subsection \<open>\<^verbatim>\<open>repr\<close> and \<^verbatim>\<open>format\<close>\<close>

definition repr_char :: "char \<Rightarrow> char \<Rightarrow> string" where
  "repr_char quote c = (let n = (of_char c :: nat) in
     if c = quote \<or> c = BS then [BS, c]
     else if n = 9 then [BS, CHR ''t'']
     else if n = 10 then [BS, CHR ''n'']
     else if n = 13 then [BS, CHR ''r'']
     else if n < 32 \<or> n = 127 \<or> (128 \<le> n \<and> n \<le> 160) \<or> n = 173
       then [BS, CHR ''x'', hexdigit (n div 16), hexdigit (n mod 16)]
     else [c])"

definition repr_str :: "string \<Rightarrow> string" where
  "repr_str s = (let quote = (if SQ \<in> set s \<and> DQ \<notin> set s then DQ else SQ)
     in quote # concat (map (repr_char quote) s) @ [quote])"

fun repr :: "pyval \<Rightarrow> string"
  and repr_elems :: "pyval list \<Rightarrow> string list"
  and repr_items :: "(string \<times> pyval) list \<Rightarrow> string list"
where
  "repr PNone = ''None''"
| "repr (PStr s) = repr_str s"
| "repr (PInteger (BoolObj b)) = (if b then ''True'' else ''False'')"
| "repr (PInteger (IntObj i)) = str_int i"
| "repr (PFloat f) = f"
| "repr (PDict d) = ''{'' @ join '', '' (repr_items d) @ ''}''"
| "repr (PList l) = ''['' @ join '', '' (repr_elems l) @ '']''"
| "repr (POther s r) = r"
| "repr_elems [] = []"
| "repr_elems (v # vs) = repr v # repr_elems vs"
| "repr_items [] = []"
| "repr_items ((k, v) # kvs) = (repr_str k @ '': '' @ repr v) # repr_items kvs"

text \<open>The text an f-string puts for \<^verbatim>\<open>{val}\<close>: \<^verbatim>\<open>format(val, '')\<close>.\<close>

fun format :: "pyval \<Rightarrow> string" where
  "format (PStr s) = s"
| "format (POther s r) = s"
| "format v = repr v"

section \<open>Errors\<close>

datatype error =
    NotImplementedError string
  | PapermillException string
  | FormatterError string
  | ValueError
  | RecursionError

section \<open>The translator classes\<close>

datatype translator_class =
    Translator
  | PythonTranslator
  | RTranslator
  | ScalaTranslator
  | JuliaTranslator
  | MatlabTranslator
  | CSharpTranslator
  | FSharpTranslator

text \<open>The text of \<^verbatim>\<open>{cls}\<close> in an f-string.\<close>

fun class_name :: "translator_class \<Rightarrow> string" where
  "class_name Translator = ''Translator''"
| "class_name PythonTranslator = ''PythonTranslator''"
| "class_name RTranslator = ''RTranslator''"
| "class_name ScalaTranslator = ''ScalaTranslator''"
| "class_name JuliaTranslator = ''JuliaTranslator''"
| "class_name MatlabTranslator = ''MatlabTranslator''"
| "class_name CSharpTranslator = ''CSharpTranslator''"
| "class_name FSharpTranslator = ''FSharpTranslator''"

definition format_cls :: "translator_class \<Rightarrow> string" where
  "format_cls cls = ''<class '' @ [SQ] @ ''papermill.translators.'' @ class_name cls @ [SQ] @ ''>''"

section \<open>The methods of the translator classes\<close>

text \<open>
  Every method is a class method: the class \<open>cls\<close> it is called on selects the
  override. An equation for a class is that class's own definition; the last equation
  of a function is the definition inherited from \<^verbatim>\<open>Translator\<close>. The functions of this
  section and \<open>str_int\<close> compute as the translators are written; what the interpreter
  adds, its limit on the digits of an int and its recursion limit, comes in the section
  on the limits of the interpreter.
\<close>

definition translate_raw_str :: "pyval \<Rightarrow> string" where
  "translate_raw_str val = format val"

text \<open>
  Only a string is escaped; any other value is put between the double quotes as
  \<^verbatim>\<open>f'"{str_val}"'\<close> prints it.
\<close>

fun translate_escaped_str :: "translator_class \<Rightarrow> pyval \<Rightarrow> string" where
  "translate_escaped_str MatlabTranslator (PStr s) =
     [DQ] @ replace_char DQ [DQ, DQ] (unicode_escape s) @ [DQ]"
| "translate_escaped_str cls (PStr s) =
     [DQ] @ replace_char DQ [BS, DQ] (unicode_escape s) @ [DQ]"
| "translate_escaped_str cls str_val = [DQ] @ format str_val @ [DQ]"

text \<open>\<^verbatim>\<open>MatlabTranslator.__translate_char_array\<close>\<close>

fun translate_char_array :: "pyval \<Rightarrow> string" where
  "translate_char_array (PStr s) = [SQ] @ replace_char SQ [SQ, SQ] (unicode_escape s) @ [SQ]"
| "translate_char_array str_val = [SQ] @ format str_val @ [SQ]"

definition translate_str :: "translator_class \<Rightarrow> pyval \<Rightarrow> string" where
  "translate_str cls val = translate_escaped_str cls val"

fun translate_none :: "translator_class \<Rightarrow> pyval \<Rightarrow> error + string" where
  "translate_none RTranslator val = Inr ''NULL''"
| "translate_none JuliaTranslator val = Inr ''nothing''"
| "translate_none MatlabTranslator val = Inr ''NaN''"
| "translate_none CSharpTranslator val =
     Inl (NotImplementedError ''Option type not implemented for C#.'')"
| "translate_none FSharpTranslator val = Inr ''None''"
| "translate_none cls val = Inr (translate_raw_str val)"

text \<open>
  The three overrides of \<^verbatim>\<open>translate_int\<close> compare the value with the bounds of a
  signed 32-bit integer.
\<close>

definition wide_int :: "pyinteger \<Rightarrow> string" where
  "wide_int val = (let strval = translate_raw_str (PInteger val) in
     if int_value val > 2147483647 \<or> int_value val < - 2147483648
     then strval @ ''L'' else strval)"

fun translate_int :: "translator_class \<Rightarrow> pyinteger \<Rightarrow> string" where
  "translate_int ScalaTranslator val = wide_int val"
| "translate_int CSharpTranslator val = wide_int val"
| "translate_int FSharpTranslator val = wide_int val"
| "translate_int cls val = translate_raw_str (PInteger val)"

definition translate_float :: "translator_class \<Rightarrow> pyval \<Rightarrow> string" where
  "translate_float cls val = translate_raw_str val"

fun translate_bool :: "translator_class \<Rightarrow> bool \<Rightarrow> string" where
  "translate_bool PythonTranslator val = translate_raw_str (PInteger (BoolObj val))"
| "translate_bool RTranslator val = (if val then ''TRUE'' else ''FALSE'')"
| "translate_bool CSharpTranslator val = (if val then ''true'' else ''false'')"
| "translate_bool FSharpTranslator val = (if val then ''true'' else ''false'')"
| "translate_bool cls val = (if val then ''true'' else ''false'')"

text \<open>
  The literal a class builds for a dictionary from its keys and the translations of its
  values, and for a list from the translations of its elements. \<^verbatim>\<open>Translator\<close> builds
  none: its last equation is never consulted.
\<close>

fun dict_literal :: "translator_class \<Rightarrow> string list \<Rightarrow> string list \<Rightarrow> string" where
  "dict_literal PythonTranslator ks vs =
     ''{'' @ join '', '' (map2 (\<lambda>k v. translate_str PythonTranslator (PStr k) @ '': '' @ v) ks vs) @ ''}''"
| "dict_literal RTranslator ks vs =
     ''list('' @ join '', '' (map2 (\<lambda>k v. translate_str RTranslator (PStr k) @ '' = '' @ v) ks vs) @ '')''"
| "dict_literal ScalaTranslator ks vs =
     ''Map('' @ join '', '' (map2 (\<lambda>k v. translate_str ScalaTranslator (PStr k) @ '' -> '' @ v) ks vs) @ '')''"
| "dict_literal JuliaTranslator ks vs =
     ''Dict('' @ join '', '' (map2 (\<lambda>k v. translate_str JuliaTranslator (PStr k) @ '' => '' @ v) ks vs) @ '')''"
| "dict_literal MatlabTranslator ks vs =
     ''containers.Map({'' @ join '', '' (map (\<lambda>k. translate_char_array (PStr k)) ks)
       @ ''}, {'' @ join '', '' vs @ ''})''"
| "dict_literal CSharpTranslator ks vs =
     ''new Dictionary<string,Object>{ ''
       @ join '', '' (map2 (\<lambda>k v. ''{ '' @ translate_str CSharpTranslator (PStr k) @ '' , '' @ v @ '' }'') ks vs)
       @ '' }''"
| "dict_literal FSharpTranslator ks vs =
     ''[ '' @ join ''; '' (map2 (\<lambda>k v. ''('' @ translate_str FSharpTranslator (PStr k) @ '', '' @ v @ '' :> IComparable)'') ks vs)
       @ '' ] |> Map.ofList''"
| "dict_literal Translator ks vs = []"

fun list_literal :: "translator_class \<Rightarrow> string list \<Rightarrow> string" where
  "list_literal PythonTranslator vs = ''['' @ join '', '' vs @ '']''"
| "list_literal RTranslator vs = ''list('' @ join '', '' vs @ '')''"
| "list_literal ScalaTranslator vs = ''Seq('' @ join '', '' vs @ '')''"
| "list_literal JuliaTranslator vs = ''['' @ join '', '' vs @ '']''"
| "list_literal MatlabTranslator vs = ''{'' @ join '', '' vs @ ''}''"
| "list_literal CSharpTranslator vs = ''new [] { '' @ join '', '' vs @ '' }''"
| "list_literal FSharpTranslator vs = ''[ '' @ join ''; '' vs @ '' ]''"
| "list_literal Translator vs = []"

text \<open>
  The dispatcher. The tests run in the order of the source: the test for \<^verbatim>\<open>bool\<close>
  stands before the test for \<^verbatim>\<open>integer_types\<close>, which a \<^verbatim>\<open>bool\<close> passes too.
  \<open>translate_each\<close> is the comprehension \<^verbatim>\<open>[cls.translate(v) for v in val]\<close> and
  \<open>translate_each_value\<close> the one over \<^verbatim>\<open>val.items()\<close>: the first exception ends
  them. \<^verbatim>\<open>Translator.translate_dict\<close> and \<^verbatim>\<open>translate_list\<close> raise before looking at
  the value.
\<close>

fun translate :: "translator_class \<Rightarrow> pyval \<Rightarrow> error + string"
  and translate_dict :: "translator_class \<Rightarrow> (string \<times> pyval) list \<Rightarrow> error + string"
  and translate_list :: "translator_class \<Rightarrow> pyval list \<Rightarrow> error + string"
  and translate_each :: "translator_class \<Rightarrow> pyval list \<Rightarrow> error + string list"
  and translate_each_value :: "translator_class \<Rightarrow> (string \<times> pyval) list \<Rightarrow> error + string list"
where
  "translate cls PNone = translate_none cls PNone"
| "translate cls (PStr s) = Inr (translate_str cls (PStr s))"
| "translate cls (PInteger (BoolObj b)) = Inr (translate_bool cls b)"
| "translate cls (PInteger i) = Inr (translate_int cls i)"
| "translate cls (PFloat f) = Inr (translate_float cls (PFloat f))"
| "translate cls (PDict d) = translate_dict cls d"
| "translate cls (PList l) = translate_list cls l"
| "translate cls (POther s r) = Inr (translate_escaped_str cls (POther s r))"
| "translate_dict Translator val =
     Inl (NotImplementedError (''dict type translation not implemented for '' @ format_cls Translator))"
| "translate_dict cls val =
     (case translate_each_value cls val of
        Inl e \<Rightarrow> Inl e
      | Inr vs \<Rightarrow> Inr (dict_literal cls (map fst val) vs))"
| "translate_list Translator val =
     Inl (NotImplementedError (''list type translation not implemented for '' @ format_cls Translator))"
| "translate_list cls val =
     (case translate_each cls val of
        Inl e \<Rightarrow> Inl e
      | Inr vs \<Rightarrow> Inr (list_literal cls vs))"
| "translate_each cls [] = Inr []"
| "translate_each cls (v # vs) =
     (case translate cls v of
        Inl e \<Rightarrow> Inl e
      | Inr x \<Rightarrow> (case translate_each cls vs of Inl e \<Rightarrow> Inl e | Inr xs \<Rightarrow> Inr (x # xs)))"
| "translate_each_value cls [] = Inr []"
| "translate_each_value cls ((k, v) # kvs) =
     (case translate cls v of
        Inl e \<Rightarrow> Inl e
      | Inr x \<Rightarrow> (case translate_each_value cls kvs of Inl e \<Rightarrow> Inl e | Inr xs \<Rightarrow> Inr (x # xs)))"

text \<open>\<^verbatim>\<open>comment\<close> has no default: \<^verbatim>\<open>Translator.comment\<close> raises.\<close>

fun comment :: "translator_class \<Rightarrow> string \<Rightarrow> error + string" where
  "comment PythonTranslator cmt_str = Inr (strip (''# '' @ cmt_str))"
| "comment RTranslator cmt_str = Inr (strip (''# '' @ cmt_str))"
| "comment ScalaTranslator cmt_str = Inr (strip (''// '' @ cmt_str))"
| "comment JuliaTranslator cmt_str = Inr (strip (''# '' @ cmt_str))"
| "comment MatlabTranslator cmt_str = Inr (strip (''% '' @ cmt_str))"
| "comment CSharpTranslator cmt_str = Inr (strip (''// '' @ cmt_str))"
| "comment FSharpTranslator cmt_str = Inr (strip (''(* '' @ cmt_str @ '' *)''))"
| "comment cls cmt_str =
     Inl (NotImplementedError (''comment translation not implemented for '' @ format_cls cls))"

text \<open>
  The loop of \<^verbatim>\<open>RTranslator.assign\<close>:
  \<^verbatim>\<open>while name.startswith("_"): name = name[1:]\<close>
\<close>

fun drop_underscores :: "string \<Rightarrow> string" where
  "drop_underscores [] = []"
| "drop_underscores (c # name) = (if c = CHR ''_'' then drop_underscores name else c # name)"

fun assign :: "translator_class \<Rightarrow> string \<Rightarrow> string \<Rightarrow> string" where
  "assign RTranslator name str_val = drop_underscores name @ '' = '' @ str_val"
| "assign ScalaTranslator name str_val = ''val '' @ name @ '' = '' @ str_val"
| "assign CSharpTranslator name str_val = ''var '' @ name @ '' = '' @ str_val @ '';''"
| "assign FSharpTranslator name str_val = ''let '' @ name @ '' = '' @ str_val"
| "assign cls name str_val = name @ '' = '' @ str_val"

text \<open>
  The loop of \<^verbatim>\<open>codify\<close> over \<^verbatim>\<open>parameters.items()\<close>, with the text \<open>content\<close>
  built so far. A parameter set is the list of its items in insertion order. \<open>eol\<close>
  is what the loop puts after each statement: a line feed in \<^verbatim>\<open>Translator.codify\<close>,
  a semicolon and a line feed in \<^verbatim>\<open>MatlabTranslator.codify\<close>.
\<close>

fun codify_loop ::
  "translator_class \<Rightarrow> string \<Rightarrow> string \<Rightarrow> (string \<times> pyval) list \<Rightarrow> error + string" where
  "codify_loop cls eol content [] = Inr content"
| "codify_loop cls eol content ((name, val) # parameters) =
     (case translate cls val of
        Inl e \<Rightarrow> Inl e
      | Inr str_val \<Rightarrow> codify_loop cls eol (content @ assign cls name str_val @ eol) parameters)"

definition Translator_codify :: "translator_class \<Rightarrow> (string \<times> pyval) list \<Rightarrow> error + string" where
  "Translator_codify cls parameters =
     (case comment cls ''Parameters'' of
        Inl e \<Rightarrow> Inl e
      | Inr c \<Rightarrow> codify_loop cls [NL] (c @ [NL]) parameters)"

definition MatlabTranslator_codify :: "translator_class \<Rightarrow> (string \<times> pyval) list \<Rightarrow> error + string" where
  "MatlabTranslator_codify cls parameters =
     (case comment cls ''Parameters'' of
        Inl e \<Rightarrow> Inl e
      | Inr c \<Rightarrow> codify_loop cls ('';'' @ [NL]) (c @ [NL]) parameters)"

text \<open>
  \<^verbatim>\<open>PythonTranslator.codify\<close> puts the text of \<^verbatim>\<open>Translator.codify\<close> through the
  Black formatter, a library outside the repository: \<open>black_format_str\<close> stands for
  \<^verbatim>\<open>black.format_str\<close> with the file mode of the source, which returns the formatted
  text or raises.
\<close>

fun codify ::
  "(string \<Rightarrow> error + string) \<Rightarrow> translator_class \<Rightarrow> (string \<times> pyval) list \<Rightarrow> error + string" where
  "codify black_format_str PythonTranslator parameters =
     (case Translator_codify PythonTranslator parameters of
        Inl e \<Rightarrow> Inl e
      | Inr content \<Rightarrow> black_format_str content)"
| "codify black_format_str MatlabTranslator parameters =
     MatlabTranslator_codify MatlabTranslator parameters"
| "codify black_format_str cls parameters = Translator_codify cls parameters"

section \<open>The registry\<close>

text \<open>\<^verbatim>\<open>PapermillTranslators\<close>: the dictionary \<^verbatim>\<open>_translators\<close>.\<close>

type_synonym registry = "string \<rightharpoonup> translator_class"

definition register :: "registry \<Rightarrow> string \<Rightarrow> translator_class \<Rightarrow> registry" where
  "register translators language translator = translators(language \<mapsto> translator)"

definition no_translator_message :: "string \<Rightarrow> string \<Rightarrow> string" where
  "no_translator_message kernel_name language =
     ''No parameter translator functions specified for kernel '' @ [SQ] @ kernel_name @ [SQ]
       @ '' or language '' @ [SQ] @ language @ [SQ]"

definition find_translator :: "registry \<Rightarrow> string \<Rightarrow> string \<Rightarrow> error + translator_class" where
  "find_translator translators kernel_name language =
     (case translators kernel_name of
        Some translator \<Rightarrow> Inr translator
      | None \<Rightarrow>
          (case translators language of
             Some translator \<Rightarrow> Inr translator
           | None \<Rightarrow> Inl (PapermillException (no_translator_message kernel_name language))))"

definition papermill_translators :: registry where
  "papermill_translators =
     register (register (register (register (register (register (register Map.empty
       ''python'' PythonTranslator)
       ''R'' RTranslator)
       ''scala'' ScalaTranslator)
       ''julia'' JuliaTranslator)
       ''matlab'' MatlabTranslator)
       ''.net-csharp'' CSharpTranslator)
       ''.net-fsharp'' FSharpTranslator"

definition translate_parameters ::
  "(string \<Rightarrow> error + string) \<Rightarrow> string \<Rightarrow> string \<Rightarrow> (string \<times> pyval) list \<Rightarrow> error + string" where
  "translate_parameters black_format_str kernel_name language parameters =
     (case find_translator papermill_translators kernel_name language of
        Inl e \<Rightarrow> Inl e
      | Inr cls \<Rightarrow> codify black_format_str cls parameters)"

section \<open>Notions of the specification\<close>

text \<open>
  A block of lines, each ended by a line feed, and the block the specification
  describes for \<^verbatim>\<open>codify\<close>: the comment line, then for each parameter, in the order
  of the parameter set, one line: the statement \<^verbatim>\<open>assign\<close> produces from the name and
  the translation of the value, followed by \<open>ending\<close>. The first failure of
  \<^verbatim>\<open>comment\<close> or of a \<^verbatim>\<open>translate\<close> is the failure of the whole.
\<close>

definition lines_block :: "string list \<Rightarrow> string" where
  "lines_block ls = concat (map (\<lambda>l. l @ [NL]) ls)"

fun statement_lines ::
  "string \<Rightarrow> translator_class \<Rightarrow> (string \<times> pyval) list \<Rightarrow> error + string list" where
  "statement_lines ending cls [] = Inr []"
| "statement_lines ending cls ((name, val) # parameters) =
     (case translate cls val of
        Inl e \<Rightarrow> Inl e
      | Inr v \<Rightarrow>
          (case statement_lines ending cls parameters of
             Inl e \<Rightarrow> Inl e
           | Inr ls \<Rightarrow> Inr ((assign cls name v @ ending) # ls)))"

definition codify_block ::
  "string \<Rightarrow> translator_class \<Rightarrow> (string \<times> pyval) list \<Rightarrow> error + string" where
  "codify_block ending cls parameters =
     (case comment cls ''Parameters'' of
        Inl e \<Rightarrow> Inl e
      | Inr c \<Rightarrow>
          (case statement_lines ending cls parameters of
             Inl e \<Rightarrow> Inl e
           | Inr ls \<Rightarrow> Inr (lines_block (c # ls))))"



section \<open>The limits of the interpreter\<close>

text \<open>
  Two failures of a call come from the interpreter and not from the translators.

  The f-string of \<^verbatim>\<open>translate_raw_str\<close> converts an int to its decimal text, and
  CPython (3.11 and later) raises \<^verbatim>\<open>ValueError\<close> when the text would have more than
  \<^verbatim>\<open>sys.int_info.default_max_str_digits\<close> = 4300 digits: when the absolute value of the
  int is at least \<open>10 ^ 4300\<close>. The conversion of a \<^verbatim>\<open>bool\<close> has no such limit. Every
  \<^verbatim>\<open>translate_int\<close> begins with this conversion.

  A call ends with \<^verbatim>\<open>RecursionError\<close> when the call stack grows beyond the recursion
  limit of the interpreter. Whether it does depends on the stack at the call as well as
  on the nesting of the values, so it is no function of the value: the functions below
  compute what a call returns or raises if the recursion limit is not exceeded, and
  \<open>codify_outcomes\<close> adds \<^verbatim>\<open>RecursionError\<close> as the other way a call can end.
\<close>

definition int_max_str_digits :: nat where
  "int_max_str_digits = 4300"

definition exceeds_max_str_digits :: "int \<Rightarrow> bool" where
  "exceeds_max_str_digits i = (10 ^ int_max_str_digits \<le> \<bar>i\<bar>)"

fun translate_int_checked :: "translator_class \<Rightarrow> pyinteger \<Rightarrow> error + string" where
  "translate_int_checked cls (IntObj i) =
     (if exceeds_max_str_digits i then Inl ValueError else Inr (translate_int cls (IntObj i)))"
| "translate_int_checked cls (BoolObj b) = Inr (translate_int cls (BoolObj b))"

text \<open>
  The dispatcher and the loops of \<^verbatim>\<open>codify\<close> once more, with the conversion of an int
  under its limit; everything else is as in \<open>translate\<close> and \<open>codify\<close>.
\<close>

fun translate_checked :: "translator_class \<Rightarrow> pyval \<Rightarrow> error + string"
  and translate_dict_checked :: "translator_class \<Rightarrow> (string \<times> pyval) list \<Rightarrow> error + string"
  and translate_list_checked :: "translator_class \<Rightarrow> pyval list \<Rightarrow> error + string"
  and translate_each_checked :: "translator_class \<Rightarrow> pyval list \<Rightarrow> error + string list"
  and translate_each_value_checked ::
    "translator_class \<Rightarrow> (string \<times> pyval) list \<Rightarrow> error + string list"
where
  "translate_checked cls PNone = translate_none cls PNone"
| "translate_checked cls (PStr s) = Inr (translate_str cls (PStr s))"
| "translate_checked cls (PInteger (BoolObj b)) = Inr (translate_bool cls b)"
| "translate_checked cls (PInteger i) = translate_int_checked cls i"
| "translate_checked cls (PFloat f) = Inr (translate_float cls (PFloat f))"
| "translate_checked cls (PDict d) = translate_dict_checked cls d"
| "translate_checked cls (PList l) = translate_list_checked cls l"
| "translate_checked cls (POther s r) = Inr (translate_escaped_str cls (POther s r))"
| "translate_dict_checked Translator val =
     Inl (NotImplementedError (''dict type translation not implemented for '' @ format_cls Translator))"
| "translate_dict_checked cls val =
     (case translate_each_value_checked cls val of
        Inl e \<Rightarrow> Inl e
      | Inr vs \<Rightarrow> Inr (dict_literal cls (map fst val) vs))"
| "translate_list_checked Translator val =
     Inl (NotImplementedError (''list type translation not implemented for '' @ format_cls Translator))"
| "translate_list_checked cls val =
     (case translate_each_checked cls val of
        Inl e \<Rightarrow> Inl e
      | Inr vs \<Rightarrow> Inr (list_literal cls vs))"
| "translate_each_checked cls [] = Inr []"
| "translate_each_checked cls (v # vs) =
     (case translate_checked cls v of
        Inl e \<Rightarrow> Inl e
      | Inr x \<Rightarrow>
          (case translate_each_checked cls vs of Inl e \<Rightarrow> Inl e | Inr xs \<Rightarrow> Inr (x # xs)))"
| "translate_each_value_checked cls [] = Inr []"
| "translate_each_value_checked cls ((k, v) # kvs) =
     (case translate_checked cls v of
        Inl e \<Rightarrow> Inl e
      | Inr x \<Rightarrow>
          (case translate_each_value_checked cls kvs of Inl e \<Rightarrow> Inl e | Inr xs \<Rightarrow> Inr (x # xs)))"







section \<open>The loop of codify\<close>

lemma lines_block_Cons: "lines_block (l # ls) = l @ [NL] @ lines_block ls"
  by (simp add: lines_block_def)

lemma lines_block_ends:
  "ls \<noteq> [] \<Longrightarrow> lines_block ls \<noteq> [] \<and> last (lines_block ls) = NL"
proof (induction ls rule: rev_induct)
  case Nil
  then show ?case by simp
next
  case (snoc l ls)
  show ?case by (simp add: lines_block_def)
qed

lemma codify_loop_lines:
  "codify_loop cls (ending @ [NL]) content parameters =
     (case statement_lines ending cls parameters of
        Inl e \<Rightarrow> Inl e
      | Inr ls \<Rightarrow> Inr (content @ lines_block ls))"
proof (induction parameters arbitrary: content)
  case Nil
  show ?case by (simp add: lines_block_def)
next
  case (Cons p ps)
  obtain name val where p: "p = (name, val)" by (cases p)
  show ?case
    by (simp add: p Cons.IH lines_block_Cons split: sum.splits)
qed

lemma statement_lines_length:
  "statement_lines ending cls parameters = Inr ls \<Longrightarrow> length ls = length parameters"
proof (induction parameters arbitrary: ls)
  case Nil
  then show ?case by simp
next
  case (Cons p ps)
  obtain name val where p: "p = (name, val)" by (cases p)
  from Cons.prems show ?case
    by (auto simp: p split: sum.splits dest: Cons.IH)
qed

lemma Translator_codify_block: "Translator_codify cls parameters = codify_block [] cls parameters"
  using codify_loop_lines [of cls "[]"]
  by (simp add: Translator_codify_def codify_block_def lines_block_Cons split: sum.splits)

lemma MatlabTranslator_codify_block:
  "MatlabTranslator_codify cls parameters = codify_block '';'' cls parameters"
  using codify_loop_lines [of cls "'';''"]
  by (simp add: MatlabTranslator_codify_def codify_block_def lines_block_Cons split: sum.splits)

lemma comment_Parameters:
  "comment PythonTranslator ''Parameters'' = Inr ''# Parameters''"
  "comment RTranslator ''Parameters'' = Inr ''# Parameters''"
  "comment ScalaTranslator ''Parameters'' = Inr ''// Parameters''"
  "comment JuliaTranslator ''Parameters'' = Inr ''# Parameters''"
  "comment MatlabTranslator ''Parameters'' = Inr ''% Parameters''"
  "comment CSharpTranslator ''Parameters'' = Inr ''// Parameters''"
  "comment FSharpTranslator ''Parameters'' = Inr ''(* Parameters *)''"
  by (simp_all add: strip_def is_space_def)

lemma comment_returns: "cls \<noteq> Translator \<Longrightarrow> \<exists>c. comment cls ''Parameters'' = Inr c"
  by (cases cls) (simp_all only: comment_Parameters, simp_all)

section \<open>Which translations return\<close>








section \<open>Decimal texts\<close>

lemma str_nat_digit: "n < 10 \<Longrightarrow> str_nat n = [hexdigit n]"
  by (simp add: str_nat.simps [of n])

lemma str_nat_step: "10 \<le> n \<Longrightarrow> str_nat n = str_nat (n div 10) @ [hexdigit (n mod 10)]"
  by (simp add: str_nat.simps [of n])

lemmas str_int_eval = str_int_def str_nat_step str_nat_digit hexdigit_def

lemma str_int_2147483647: "str_int 2147483647 = ''2147483647''"
  by (simp add: str_int_eval)

lemma str_int_2147483648: "str_int 2147483648 = ''2147483648''"
  by (simp add: str_int_eval)

lemma str_int_minus_2147483648: "str_int (- 2147483648) = ''-2147483648''"
  by (simp add: str_int_eval)

lemma str_int_minus_2147483649: "str_int (- 2147483649) = ''-2147483649''"
  by (simp add: str_int_eval)

lemma str_int_3000000000: "str_int 3000000000 = ''3000000000''"
  by (simp add: str_int_eval)

lemmas str_int_bounds =
  str_int_2147483647 str_int_2147483648 str_int_minus_2147483648
  str_int_minus_2147483649 str_int_3000000000

lemma wide_int_IntObj:
  "wide_int (IntObj i) =
     (if i > 2147483647 \<or> i < - 2147483648 then str_int i @ ''L'' else str_int i)"
  by (simp add: wide_int_def translate_raw_str_def)


section \<open>Escaping that changes nothing\<close>











lemma statement_lines_nth:
  "statement_lines ending cls parameters = Inr ls \<Longrightarrow> i < length parameters \<Longrightarrow>
   \<exists>v. translate cls (snd (parameters ! i)) = Inr v \<and>
       ls ! i = assign cls (fst (parameters ! i)) v @ ending"
proof (induction parameters arbitrary: ls i)
  case Nil
  then show ?case by simp
next
  case (Cons p ps)
  obtain name val where p: "p = (name, val)" by (cases p)
  from Cons.prems(1) obtain v ls' where
    v: "translate cls val = Inr v" and ls': "statement_lines ending cls ps = Inr ls'"
    and ls: "ls = (assign cls name v @ ending) # ls'"
    by (auto simp: p split: sum.splits)
  show ?case
  proof (cases i)
    case 0
    then show ?thesis by (simp add: p v ls)
  next
    case (Suc j)
    with Cons.prems(2) have "j < length ps" by simp
    from Cons.IH [OF ls' this] show ?thesis by (simp add: Suc ls)
  qed
qed

section \<open>Which calls of codify return\<close>


section \<open>The limit of the conversion of an int\<close>
















section \<open>The claims\<close>

text \<open>
  C2. \<^verbatim>\<open>find_translator\<close> returns the translator registered under the kernel name if
  there is one; otherwise the translator registered under the language if there is one;
  with neither it fails with the exception of the repository, whose message contains
  both the kernel name and the language.
\<close>

theorem find_translator_lookup:
  "(translators kernel_name = Some t \<longrightarrow>
      find_translator translators kernel_name language = Inr t) \<and>
   (translators kernel_name = None \<and> translators language = Some t \<longrightarrow>
      find_translator translators kernel_name language = Inr t) \<and>
   (translators kernel_name = None \<and> translators language = None \<longrightarrow>
      find_translator translators kernel_name language =
        Inl (PapermillException (no_translator_message kernel_name language))) \<and>
   sublist kernel_name (no_translator_message kernel_name language) \<and>
   sublist language (no_translator_message kernel_name language)"
proof -
  have "sublist kernel_name (no_translator_message kernel_name language)"
    unfolding no_translator_message_def by (metis sublist_appendI append.assoc)
  moreover have "sublist language (no_translator_message kernel_name language)"
    unfolding no_translator_message_def by (metis sublist_appendI append.assoc)
  ultimately show ?thesis by (simp add: find_translator_def)
qed

theorem find_translator_lookup_witness:
  "find_translator papermill_translators ''python'' ''nowhere'' = Inr PythonTranslator \<and>
   find_translator papermill_translators ''ir'' ''R'' = Inr RTranslator \<and>
   find_translator papermill_translators ''nope'' ''nowhere'' =
     Inl (PapermillException (no_translator_message ''nope'' ''nowhere'')) \<and>
   sublist ''nope'' (no_translator_message ''nope'' ''nowhere'') \<and>
   sublist ''nowhere'' (no_translator_message ''nope'' ''nowhere'')"
  using find_translator_lookup [of papermill_translators "''python''" PythonTranslator "''nowhere''"]
    find_translator_lookup [of papermill_translators "''ir''" RTranslator "''R''"]
    find_translator_lookup [of papermill_translators "''nope''" Translator "''nowhere''"]
  by (simp add: papermill_translators_def register_def)

text \<open>
  C6. After \<^verbatim>\<open>register(k, t)\<close>, \<^verbatim>\<open>find_translator(k, anything)\<close> returns \<open>t\<close>, whatever
  was registered under \<open>k\<close> before and whatever the second argument is: the last
  registration wins and the language is not consulted.
\<close>

theorem register_then_find:
  "find_translator (register translators k t) k anything = Inr t \<and>
   find_translator (register (register translators k t0) k t) k anything = Inr t \<and>
   register (register translators k t0) k t = register translators k t"
  by (simp add: find_translator_def register_def)

text \<open>
  C8. \<^verbatim>\<open>RTranslator.assign\<close> removes every leading underscore of the name before it
  builds \<^verbatim>\<open>name = literal\<close>: what is left of the name does not start with an
  underscore, and a name without a leading underscore is kept as it is.
\<close>

theorem r_assign_drops_leading_underscores:
  "assign RTranslator name str_val =
     dropWhile (\<lambda>c. c = CHR ''_'') name @ '' = '' @ str_val \<and>
   \<not> prefix ''_'' (dropWhile (\<lambda>c. c = CHR ''_'') name) \<and>
   (\<exists>n. name = replicate n (CHR ''_'') @ dropWhile (\<lambda>c. c = CHR ''_'') name) \<and>
   (\<not> prefix ''_'' name \<longrightarrow> assign RTranslator name str_val = name @ '' = '' @ str_val)"
proof -
  have drop: "drop_underscores xs = dropWhile (\<lambda>c. c = CHR ''_'') xs" for xs
    by (induction xs) simp_all
  have nopre: "\<not> prefix ''_'' (dropWhile (\<lambda>c. c = CHR ''_'') xs)" for xs
    by (induction xs) simp_all
  have rep: "\<exists>n. xs = replicate n (CHR ''_'') @ dropWhile (\<lambda>c. c = CHR ''_'') xs" for xs
  proof (induction xs)
    case Nil
    show ?case by simp
  next
    case (Cons x xs)
    then obtain n where n: "xs = replicate n (CHR ''_'') @ dropWhile (\<lambda>c. c = CHR ''_'') xs" ..
    show ?case
    proof (cases "x = CHR ''_''")
      case True
      have "x # xs = replicate (Suc n) (CHR ''_'') @ dropWhile (\<lambda>c. c = CHR ''_'') (x # xs)"
        using n True by simp
      then show ?thesis ..
    next
      case False
      have "x # xs = replicate 0 (CHR ''_'') @ dropWhile (\<lambda>c. c = CHR ''_'') (x # xs)"
        using False by simp
      then show ?thesis ..
    qed
  qed
  have keep: "\<not> prefix ''_'' xs \<Longrightarrow> dropWhile (\<lambda>c. c = CHR ''_'') xs = xs" for xs
    by (cases xs) simp_all
  show ?thesis
    using nopre [of name] rep [of name] keep [of name] by (simp add: drop)
qed

theorem r_assign_drops_leading_underscores_witness:
  "assign RTranslator ''__a_b'' ''1'' = ''a_b = 1'' \<and>
   \<not> prefix ''_'' ''x'' \<and> assign RTranslator ''x'' ''42'' = ''x = 42''"
  using r_assign_drops_leading_underscores [of "''__a_b''" "''1''"]
    r_assign_drops_leading_underscores [of "''x''" "''42''"]
  by simp

text \<open>
  C4. In \<^verbatim>\<open>ScalaTranslator\<close>, \<^verbatim>\<open>CSharpTranslator\<close> and \<^verbatim>\<open>FSharpTranslator\<close>,
  \<^verbatim>\<open>translate_int\<close> of 2147483647 and of -2147483648 is the decimal text alone, and of
  2147483648 and of -2147483649 the decimal text followed by \<^verbatim>\<open>L\<close>;
  \<^verbatim>\<open>ScalaTranslator.translate_int(3000000000)\<close> is \<^verbatim>\<open>3000000000L\<close>.
\<close>

theorem translate_int_wide_boundary:
  "translate_int ScalaTranslator (IntObj 2147483647) = ''2147483647'' \<and>
   translate_int ScalaTranslator (IntObj (- 2147483648)) = ''-2147483648'' \<and>
   translate_int ScalaTranslator (IntObj 2147483648) = ''2147483648L'' \<and>
   translate_int ScalaTranslator (IntObj (- 2147483649)) = ''-2147483649L'' \<and>
   translate_int CSharpTranslator (IntObj 2147483647) = ''2147483647'' \<and>
   translate_int CSharpTranslator (IntObj (- 2147483648)) = ''-2147483648'' \<and>
   translate_int CSharpTranslator (IntObj 2147483648) = ''2147483648L'' \<and>
   translate_int CSharpTranslator (IntObj (- 2147483649)) = ''-2147483649L'' \<and>
   translate_int FSharpTranslator (IntObj 2147483647) = ''2147483647'' \<and>
   translate_int FSharpTranslator (IntObj (- 2147483648)) = ''-2147483648'' \<and>
   translate_int FSharpTranslator (IntObj 2147483648) = ''2147483648L'' \<and>
   translate_int FSharpTranslator (IntObj (- 2147483649)) = ''-2147483649L'' \<and>
   translate_int ScalaTranslator (IntObj 3000000000) = ''3000000000L''"
  by (simp add: wide_int_IntObj str_int_bounds)

text \<open>
  C3. For every translator class and every \<^verbatim>\<open>bool\<close>, \<^verbatim>\<open>translate\<close> returns what
  \<^verbatim>\<open>translate_bool\<close> returns, although the value is an instance of \<^verbatim>\<open>integer_types\<close>
  too; in every class but \<^verbatim>\<open>PythonTranslator\<close> this differs from what \<^verbatim>\<open>translate_int\<close>
  returns for the same value.
\<close>

theorem translate_bool_before_int:
  "isinstance_bool (PInteger (BoolObj b)) \<and>
   isinstance_integer_types (PInteger (BoolObj b)) \<and>
   translate cls (PInteger (BoolObj b)) = Inr (translate_bool cls b) \<and>
   (cls \<noteq> PythonTranslator \<longrightarrow>
      translate cls (PInteger (BoolObj b)) \<noteq> Inr (translate_int cls (BoolObj b)))"
  by (cases cls; cases b) (simp_all add: wide_int_def translate_raw_str_def)

theorem translate_bool_before_int_witness:
  "translate ScalaTranslator (PInteger (BoolObj True)) = Inr ''true'' \<and>
   translate_int ScalaTranslator (BoolObj True) = ''True'' \<and>
   translate ScalaTranslator (PInteger (BoolObj True)) \<noteq>
     Inr (translate_int ScalaTranslator (BoolObj True))"
  using translate_bool_before_int [where cls = ScalaTranslator and b = True]
  by (simp add: wide_int_def translate_raw_str_def)

text \<open>
  C7, as stated: the default \<^verbatim>\<open>translate_bool\<close> renders a boolean as
  \<^verbatim>\<open>translate_raw_str\<close> does. It does not: for \<^verbatim>\<open>True\<close> the default gives \<^verbatim>\<open>true\<close> and
  the raw rendering \<^verbatim>\<open>True\<close>.
\<close>

theorem translate_bool_default_counterexample:
  "translate_bool Translator True = ''true'' \<and>
   translate_raw_str (PInteger (BoolObj True)) = ''True'' \<and>
   translate_bool Translator True \<noteq> translate_raw_str (PInteger (BoolObj True))"
  by (simp add: translate_raw_str_def)

text \<open>
  C7, amended. The defaults for \<^verbatim>\<open>None\<close>, integers and floats are the raw rendering;
  the default \<^verbatim>\<open>translate_bool\<close> is the lower-case keyword \<^verbatim>\<open>true\<close> or \<^verbatim>\<open>false\<close>.
  \<^verbatim>\<open>PythonTranslator\<close> overrides it with the raw rendering (\<^verbatim>\<open>True\<close>, \<^verbatim>\<open>False\<close>),
  \<^verbatim>\<open>RTranslator\<close> with \<^verbatim>\<open>TRUE\<close> and \<^verbatim>\<open>FALSE\<close>; every other class gives what the
  default gives.
\<close>

theorem translate_bool_default:
  "translate_bool Translator b = (if b then ''true'' else ''false'') \<and>
   translate_none Translator v = Inr (translate_raw_str v) \<and>
   translate_int Translator i = translate_raw_str (PInteger i) \<and>
   translate_float Translator v = translate_raw_str v \<and>
   translate_bool PythonTranslator b = translate_raw_str (PInteger (BoolObj b)) \<and>
   translate_bool PythonTranslator b = (if b then ''True'' else ''False'') \<and>
   translate_bool RTranslator b = (if b then ''TRUE'' else ''FALSE'') \<and>
   translate_bool ScalaTranslator b = translate_bool Translator b \<and>
   translate_bool JuliaTranslator b = translate_bool Translator b \<and>
   translate_bool MatlabTranslator b = translate_bool Translator b \<and>
   translate_bool CSharpTranslator b = translate_bool Translator b \<and>
   translate_bool FSharpTranslator b = translate_bool Translator b"
  by (simp add: translate_raw_str_def translate_float_def)




text \<open>
  C10. For every class with a comment syntax, \<^verbatim>\<open>Translator.codify\<close> and
  \<^verbatim>\<open>MatlabTranslator.codify\<close> applied to the empty parameter set return the comment
  line followed by one line feed and nothing else; and whatever the parameter set, a
  text that \<^verbatim>\<open>codify\<close> returns ends with a line feed. For \<^verbatim>\<open>PythonTranslator\<close> this is
  the text before it is formatted.
\<close>

theorem codify_empty_and_final_newline:
  "(cls \<noteq> Translator \<longrightarrow>
      (\<exists>c. comment cls ''Parameters'' = Inr c \<and>
           Translator_codify cls [] = Inr (c @ [NL]) \<and>
           MatlabTranslator_codify cls [] = Inr (c @ [NL]) \<and>
           (cls \<noteq> PythonTranslator \<longrightarrow> codify black_format_str cls [] = Inr (c @ [NL])))) \<and>
   (Translator_codify cls parameters = Inr s \<longrightarrow> s \<noteq> [] \<and> last s = NL) \<and>
   (MatlabTranslator_codify cls parameters = Inr s \<longrightarrow> s \<noteq> [] \<and> last s = NL) \<and>
   (cls \<noteq> PythonTranslator \<and> codify black_format_str cls parameters = Inr s \<longrightarrow>
      s \<noteq> [] \<and> last s = NL)"
proof -
  have block: "s \<noteq> [] \<and> last s = NL" if "codify_block ending cls parameters = Inr s" for ending
  proof -
    from that obtain c ls where "s = lines_block (c # ls)"
      by (auto simp: codify_block_def split: sum.splits)
    then show ?thesis using lines_block_ends [of "c # ls"] by simp
  qed
  have empty: "\<exists>c. comment cls ''Parameters'' = Inr c \<and>
      Translator_codify cls [] = Inr (c @ [NL]) \<and>
      MatlabTranslator_codify cls [] = Inr (c @ [NL]) \<and>
      (cls \<noteq> PythonTranslator \<longrightarrow> codify black_format_str cls [] = Inr (c @ [NL]))"
    if "cls \<noteq> Translator"
  proof -
    from comment_returns [OF that] obtain c where c: "comment cls ''Parameters'' = Inr c" ..
    have "Translator_codify cls [] = Inr (c @ [NL])"
      by (simp add: Translator_codify_def c)
    moreover have "MatlabTranslator_codify cls [] = Inr (c @ [NL])"
      by (simp add: MatlabTranslator_codify_def c)
    ultimately show ?thesis using c by (cases cls) simp_all
  qed
  have final: "s \<noteq> [] \<and> last s = NL"
    if "cls \<noteq> PythonTranslator" "codify black_format_str cls parameters = Inr s"
    using that block [of "[]"] block [of "'';''"]
    by (cases cls) (simp_all add: Translator_codify_block MatlabTranslator_codify_block)
  show ?thesis
    using empty final block [of "[]"] block [of "'';''"]
    by (simp add: Translator_codify_block MatlabTranslator_codify_block)
qed

theorem codify_empty_and_final_newline_witness:
  "codify Inr MatlabTranslator [] = Inr (''% Parameters'' @ [NL]) \<and>
   Translator_codify PythonTranslator [] = Inr (''# Parameters'' @ [NL]) \<and>
   codify Inr RTranslator [(''_a'', PStr ''x'')] =
     Inr (''# Parameters'' @ [NL] @ ''a = '' @ [DQ] @ ''x'' @ [DQ] @ [NL]) \<and>
   last (''# Parameters'' @ [NL] @ ''a = '' @ [DQ] @ ''x'' @ [DQ] @ [NL]) = NL"
  using codify_empty_and_final_newline
    [where cls = MatlabTranslator and black_format_str = Inr and parameters = "[]"
       and s = "''% Parameters'' @ [NL]"]
    codify_empty_and_final_newline
    [where cls = PythonTranslator and black_format_str = Inr and parameters = "[]"
       and s = "''# Parameters'' @ [NL]"]
    codify_empty_and_final_newline
    [where cls = RTranslator and black_format_str = Inr and parameters = "[(''_a'', PStr ''x'')]"
       and s = "''# Parameters'' @ [NL] @ ''a = '' @ [DQ] @ ''x'' @ [DQ] @ [NL]"]
  by (simp add: Translator_codify_def MatlabTranslator_codify_def strip_def is_space_def
      translate_str_def replace_char_def unicode_escape_def escape_char_def)

text \<open>
  C1, as stated: for every translator, \<^verbatim>\<open>codify\<close> returns the comment line followed by
  one line per parameter that is the statement \<^verbatim>\<open>assign\<close> produces, each ended by a
  line feed. \<^verbatim>\<open>MatlabTranslator.codify\<close> does not: it puts a semicolon after the
  statement.
\<close>

theorem codify_matlab_counterexample:
  "codify Inr MatlabTranslator [(''alpha'', PInteger (IntObj 1))] =
     Inr (''% Parameters'' @ [NL] @ ''alpha = 1;'' @ [NL]) \<and>
   codify_block [] MatlabTranslator [(''alpha'', PInteger (IntObj 1))] =
     Inr (''% Parameters'' @ [NL] @ ''alpha = 1'' @ [NL]) \<and>
   codify Inr MatlabTranslator [(''alpha'', PInteger (IntObj 1))] \<noteq>
     codify_block [] MatlabTranslator [(''alpha'', PInteger (IntObj 1))]"
  by (simp add: MatlabTranslator_codify_def codify_block_def strip_def is_space_def lines_block_def
      translate_raw_str_def str_int_eval)

text \<open>
  C1, amended. \<^verbatim>\<open>codify\<close> builds the comment line followed by one line per parameter,
  in the order of the parameter set: the statement \<^verbatim>\<open>assign\<close> produces from the name
  and the translation of the value, followed by a line feed, and in
  \<^verbatim>\<open>MatlabTranslator\<close> by a semicolon and a line feed. \<^verbatim>\<open>PythonTranslator\<close> hands this
  block to the formatter. A failure of \<^verbatim>\<open>comment\<close> or of a \<^verbatim>\<open>translate\<close> is the failure
  of \<^verbatim>\<open>codify\<close>. Before formatting, \<^verbatim>\<open>PythonTranslator.codify\<close> of alpha = 1 and
  beta = "x" has the lines \<^verbatim>\<open># Parameters\<close>, \<^verbatim>\<open>alpha = 1\<close> and \<^verbatim>\<open>beta = "x"\<close>.
\<close>

theorem codify_is_block:
  "(cls \<noteq> PythonTranslator \<and> cls \<noteq> MatlabTranslator \<longrightarrow>
      codify black_format_str cls parameters = codify_block [] cls parameters) \<and>
   codify black_format_str MatlabTranslator parameters = codify_block '';'' MatlabTranslator parameters \<and>
   codify black_format_str PythonTranslator parameters =
     (case codify_block [] PythonTranslator parameters of
        Inl e \<Rightarrow> Inl e
      | Inr content \<Rightarrow> black_format_str content) \<and>
   (statement_lines ending cls parameters = Inr ls \<longrightarrow>
      length ls = length parameters \<and>
      (\<forall>i < length parameters.
         \<exists>v. translate cls (snd (parameters ! i)) = Inr v \<and>
             ls ! i = assign cls (fst (parameters ! i)) v @ ending)) \<and>
   codify Inr PythonTranslator [(''alpha'', PInteger (IntObj 1)), (''beta'', PStr ''x'')] =
     Inr (lines_block [''# Parameters'', ''alpha = 1'', ''beta = '' @ [DQ] @ ''x'' @ [DQ]])"
proof -
  have plain: "codify black_format_str cls parameters = codify_block [] cls parameters"
    if "cls \<noteq> PythonTranslator" "cls \<noteq> MatlabTranslator"
    using that by (cases cls) (simp_all add: Translator_codify_block)
  have example:
    "codify Inr PythonTranslator [(''alpha'', PInteger (IntObj 1)), (''beta'', PStr ''x'')] =
       Inr (lines_block [''# Parameters'', ''alpha = 1'', ''beta = '' @ [DQ] @ ''x'' @ [DQ]])"
    by (simp add: Translator_codify_def strip_def is_space_def lines_block_def
        translate_raw_str_def str_int_eval translate_str_def replace_char_def
        unicode_escape_def escape_char_def)
  show ?thesis
    using plain example statement_lines_length [of ending cls parameters ls]
      statement_lines_nth [of ending cls parameters ls]
    by (simp add: Translator_codify_block MatlabTranslator_codify_block)
qed

theorem codify_is_block_witness:
  "codify Inr FSharpTranslator [(''x'', PInteger (IntObj 1)), (''y'', PInteger (BoolObj True))] =
     codify_block [] FSharpTranslator [(''x'', PInteger (IntObj 1)), (''y'', PInteger (BoolObj True))] \<and>
   statement_lines [] FSharpTranslator [(''x'', PInteger (IntObj 1)), (''y'', PInteger (BoolObj True))] =
     Inr [''let x = 1'', ''let y = true''] \<and>
   length [''let x = 1'', ''let y = true''] =
     length [(''x'', PInteger (IntObj 1)), (''y'', PInteger (BoolObj True))]"
  using codify_is_block
    [where cls = FSharpTranslator and black_format_str = Inr and ending = "[]"
       and parameters = "[(''x'', PInteger (IntObj 1)), (''y'', PInteger (BoolObj True))]"
       and ls = "[''let x = 1'', ''let y = true'']"]
  by (simp add: wide_int_IntObj str_int_eval)




end
